theory Spec2Isabelle
  imports Main
begin

section \<open>JavaScript values and truthiness\<close>

text \<open>
  The TypeScript sources test strings with \<open>if (s)\<close>, \<open>!s\<close> and \<open>a || b\<close>. A value of
  type \<open>string | null\<close> (or \<open>string | undefined\<close>) is a \<open>string option\<close>; it is
  truthy exactly when it is a non-empty string.
\<close>

datatype js_value = JBool bool | JNum nat | JStrings "string list"

fun truthy :: "js_value \<Rightarrow> bool" where
  "truthy (JBool b) = b"
| "truthy (JNum n) = (n \<noteq> 0)"
| "truthy (JStrings xs) = True"

definition truthy_str :: "string option \<Rightarrow> bool" where
  "truthy_str s = (case s of None \<Rightarrow> False | Some t \<Rightarrow> t \<noteq> [])"

text \<open>\<open>a || b\<close> where \<open>b\<close> is a string literal.\<close>

definition or_default :: "string option \<Rightarrow> string \<Rightarrow> string" where
  "or_default a b = (case a of None \<Rightarrow> b | Some t \<Rightarrow> if t \<noteq> [] then t else b)"

text \<open>\<open>a || null\<close>.\<close>

definition or_null :: "string option \<Rightarrow> string option" where
  "or_null a = (case a of None \<Rightarrow> None | Some t \<Rightarrow> if t \<noteq> [] then Some t else None)"

section \<open>Process configuration\<close>

text \<open>The two variables of \<open>process.env\<close> that the tenant module reads.\<close>

record process_env =
  EXPO_PUBLIC_TENANT_ID :: "string option"
  EXPO_PUBLIC_API_URL_DEV :: "string option"

section \<open>Tenant configuration (core/tenant/tenant.config.ts)\<close>

record TenantApiConfig =
  baseUrl :: string
  timeout :: nat
  retryAttempts :: nat
  enableCaching :: bool
  cacheTimeout :: nat

text \<open>
  \<open>featureFlags\<close> and \<open>permissions\<close> are JavaScript objects read by a computed key
  (\<open>tenant.featureFlags[feature]\<close>), so they are kept as key/value tables in the order of
  the object literal; a missing key reads as \<open>undefined\<close>, here \<open>None\<close>. The optional field
  \<open>customSettings\<close> is set by no entry of the table and read nowhere; it is left out.
  The field \<open>id\<close> is called \<open>tenant_id\<close>.
\<close>

record TenantConfig =
  tenant_id :: string
  name :: string
  displayName :: string
  api :: TenantApiConfig
  featureFlags :: "(string \<times> js_value) list"
  permissions :: "(string \<times> js_value) list"

text \<open>The keys of the interfaces \<open>TenantFeatureFlags\<close> and \<open>TenantPermissions\<close>.\<close>

definition TenantFeatureFlags_keys :: "string list" where
  "TenantFeatureFlags_keys =
     [''enablePushNotifications'', ''enableBiometricAuth'', ''enableDarkMode'',
      ''enableOfflineMode'', ''enableAnalytics'', ''enableChatSupport'',
      ''enablePaymentGateway'', ''maxFileUploadSize'', ''allowedFileTypes'']"

definition TenantPermissions_keys :: "string list" where
  "TenantPermissions_keys =
     [''canCreateContent'', ''canDeleteContent'', ''canShareContent'', ''canExportData'',
      ''canInviteUsers'', ''maxUsers'']"

definition tenant_default :: "process_env \<Rightarrow> TenantConfig" where
  "tenant_default env =
     \<lparr> tenant_id = ''default'', name = ''default'', displayName = ''Default Tenant'',
       api = \<lparr> baseUrl = or_default (EXPO_PUBLIC_API_URL_DEV env) ''https://api-dev.example.com'',
               timeout = 30000, retryAttempts = 3, enableCaching = True,
               cacheTimeout = 300000 \<rparr>,
       featureFlags =
         [(''enablePushNotifications'', JBool True), (''enableBiometricAuth'', JBool True),
          (''enableDarkMode'', JBool True), (''enableOfflineMode'', JBool True),
          (''enableAnalytics'', JBool True), (''enableChatSupport'', JBool True),
          (''enablePaymentGateway'', JBool True), (''maxFileUploadSize'', JNum 10485760),
          (''allowedFileTypes'', JStrings [''image/jpeg'', ''image/png'', ''application/pdf''])],
       permissions =
         [(''canCreateContent'', JBool True), (''canDeleteContent'', JBool True),
          (''canShareContent'', JBool True), (''canExportData'', JBool True),
          (''canInviteUsers'', JBool True), (''maxUsers'', JNum 100)] \<rparr>"

definition tenant_1 :: TenantConfig where
  "tenant_1 =
     \<lparr> tenant_id = ''tenant-1'', name = ''tenant-1'', displayName = ''Tenant One'',
       api = \<lparr> baseUrl = ''https://api-tenant1.example.com'', timeout = 30000,
               retryAttempts = 3, enableCaching = True, cacheTimeout = 300000 \<rparr>,
       featureFlags =
         [(''enablePushNotifications'', JBool True), (''enableBiometricAuth'', JBool False),
          (''enableDarkMode'', JBool True), (''enableOfflineMode'', JBool False),
          (''enableAnalytics'', JBool True), (''enableChatSupport'', JBool False),
          (''enablePaymentGateway'', JBool True), (''maxFileUploadSize'', JNum 5242880),
          (''allowedFileTypes'', JStrings [''image/jpeg'', ''image/png''])],
       permissions =
         [(''canCreateContent'', JBool True), (''canDeleteContent'', JBool False),
          (''canShareContent'', JBool True), (''canExportData'', JBool False),
          (''canInviteUsers'', JBool False), (''maxUsers'', JNum 50)] \<rparr>"

definition tenant_2 :: TenantConfig where
  "tenant_2 =
     \<lparr> tenant_id = ''tenant-2'', name = ''tenant-2'', displayName = ''Tenant Two'',
       api = \<lparr> baseUrl = ''https://api-tenant2.example.com'', timeout = 30000,
               retryAttempts = 5, enableCaching = True, cacheTimeout = 600000 \<rparr>,
       featureFlags =
         [(''enablePushNotifications'', JBool True), (''enableBiometricAuth'', JBool True),
          (''enableDarkMode'', JBool True), (''enableOfflineMode'', JBool True),
          (''enableAnalytics'', JBool True), (''enableChatSupport'', JBool True),
          (''enablePaymentGateway'', JBool False), (''maxFileUploadSize'', JNum 20971520),
          (''allowedFileTypes'',
             JStrings [''image/jpeg'', ''image/png'', ''application/pdf'', ''video/mp4''])],
       permissions =
         [(''canCreateContent'', JBool True), (''canDeleteContent'', JBool True),
          (''canShareContent'', JBool True), (''canExportData'', JBool True),
          (''canInviteUsers'', JBool True), (''maxUsers'', JNum 500)] \<rparr>"

definition tenant_3 :: TenantConfig where
  "tenant_3 =
     \<lparr> tenant_id = ''tenant-3'', name = ''tenant-3'', displayName = ''Tenant Three'',
       api = \<lparr> baseUrl = ''https://api-tenant3.example.com'', timeout = 20000,
               retryAttempts = 2, enableCaching = False, cacheTimeout = 0 \<rparr>,
       featureFlags =
         [(''enablePushNotifications'', JBool False), (''enableBiometricAuth'', JBool False),
          (''enableDarkMode'', JBool False), (''enableOfflineMode'', JBool False),
          (''enableAnalytics'', JBool False), (''enableChatSupport'', JBool False),
          (''enablePaymentGateway'', JBool False), (''maxFileUploadSize'', JNum 1048576),
          (''allowedFileTypes'', JStrings [''image/jpeg''])],
       permissions =
         [(''canCreateContent'', JBool False), (''canDeleteContent'', JBool False),
          (''canShareContent'', JBool False), (''canExportData'', JBool False),
          (''canInviteUsers'', JBool False), (''maxUsers'', JNum 10)] \<rparr>"

text \<open>
  The table \<open>tenantConfigs\<close>, in the order of the object literal. \<open>tenantConfigs[k]\<close> is
  \<open>map_of (tenantConfigs env) k\<close>: the lookup of an own key of the literal (keys that
  JavaScript would find on \<open>Object.prototype\<close>, such as \<open>constructor\<close>, are outside the
  type \<open>TenantId\<close> and are not modelled). \<open>tenantConfigs.default\<close> names the first entry.
\<close>

definition tenantConfigs :: "process_env \<Rightarrow> (string \<times> TenantConfig) list" where
  "tenantConfigs env =
     [(''default'', tenant_default env), (''tenant-1'', tenant_1),
      (''tenant-2'', tenant_2), (''tenant-3'', tenant_3)]"

text \<open>
  \<open>tenantConfigs[defaultTenantId] || tenantConfigs.default\<close> with
  \<open>defaultTenantId = process.env.EXPO_PUBLIC_TENANT_ID || 'default'\<close>: the two lines shared
  by \<open>loadTenant\<close> and \<open>getCurrentTenant\<close>.
\<close>

definition defaultTenantId :: "process_env \<Rightarrow> string" where
  "defaultTenantId env = or_default (EXPO_PUBLIC_TENANT_ID env) ''default''"

definition resolve_default :: "process_env \<Rightarrow> TenantConfig" where
  "resolve_default env =
     (case map_of (tenantConfigs env) (defaultTenantId env) of
        Some t \<Rightarrow> t
      | None \<Rightarrow> tenant_default env)"

text \<open>
  The class \<open>TenantLoader\<close> has one static field, \<open>currentTenant: TenantConfig | null\<close>;
  each static method takes it and returns it updated, next to its result. The source has
  no \<open>throw\<close> and no property read on a possibly missing object in these methods, so
  there is no error branch.
\<close>

definition loadTenant ::
  "process_env \<Rightarrow> string option \<Rightarrow> TenantConfig option \<Rightarrow> TenantConfig \<times> TenantConfig option" where
  "loadTenant env tenantId currentTenant =
     (case (case tenantId of
              None \<Rightarrow> None
            | Some i \<Rightarrow> if i \<noteq> [] then map_of (tenantConfigs env) i else None) of
        Some t \<Rightarrow> (t, Some t)
      | None \<Rightarrow> (resolve_default env, Some (resolve_default env)))"

definition getCurrentTenant ::
  "process_env \<Rightarrow> TenantConfig option \<Rightarrow> TenantConfig \<times> TenantConfig option" where
  "getCurrentTenant env currentTenant =
     (case currentTenant of
        None \<Rightarrow> (resolve_default env, Some (resolve_default env))
      | Some t \<Rightarrow> (t, Some t))"

text \<open>
  \<open>isFeatureEnabled\<close> and \<open>hasPermission\<close> are declared \<open>boolean\<close> but return
  \<open>tenant.featureFlags[feature] ?? false\<close>: the stored value of whatever type, and
  \<open>false\<close> only when the key reads as \<open>undefined\<close> or \<open>null\<close>.
\<close>

definition isFeatureEnabled ::
  "process_env \<Rightarrow> string \<Rightarrow> TenantConfig option \<Rightarrow> js_value \<times> TenantConfig option" where
  "isFeatureEnabled env feature currentTenant =
     (let (tenant, cur) = getCurrentTenant env currentTenant
      in (case map_of (featureFlags tenant) feature of
            None \<Rightarrow> JBool False
          | Some v \<Rightarrow> v, cur))"

definition hasPermission ::
  "process_env \<Rightarrow> string \<Rightarrow> TenantConfig option \<Rightarrow> js_value \<times> TenantConfig option" where
  "hasPermission env permission currentTenant =
     (let (tenant, cur) = getCurrentTenant env currentTenant
      in (case map_of (permissions tenant) permission of
            None \<Rightarrow> JBool False
          | Some v \<Rightarrow> v, cur))"

section \<open>The HTTP client (core/api/api-client.ts)\<close>

subsection \<open>Requests, responses and errors\<close>

text \<open>
  A response body is a JSON value of which the client reads three properties:
  \<open>data.message\<close>, \<open>data.errors\<close> and \<open>data.accessToken\<close>; each may be missing. The rest
  of the body is the opaque \<open>payload\<close>.
\<close>

record response_body =
  payload :: string
  body_message :: "string option"
  body_errors :: "string list option"
  body_accessToken :: "string option"

record AxiosResponse =
  res_status :: nat
  res_data :: response_body

datatype http_method = GET | POST | PUT | PATCH | DELETE

text \<open>
  The request configuration that travels through the interceptors
  (\<open>InternalAxiosRequestConfig & { _retry?: boolean }\<close>). Header names are compared as
  written.
\<close>

record request_config =
  req_method :: http_method
  url :: string
  data :: "string option"
  cfg_timeout :: "nat option"
  headers :: "string \<rightharpoonup> string"
  retry :: bool

text \<open>
  The optional last argument of \<open>get/post/put/patch/delete\<close>. Of the fields of
  \<open>AxiosRequestConfig\<close> the model keeps the per-call overrides of headers and timeout and
  the body.
\<close>

record AxiosRequestConfig =
  opt_headers :: "string \<rightharpoonup> string"
  opt_timeout :: "nat option"
  opt_data :: "string option"

record AxiosError =
  ae_message :: string
  ae_code :: "string option"
  ae_response :: "AxiosResponse option"
  ae_config :: request_config

record ApiResponse =
  data_of :: response_body
  resp_message :: "string option"
  success :: bool
  resp_errors :: "string list option"

record ApiError =
  message :: string
  code :: "string option"
  status :: "nat option"
  errors :: "string list option"

text \<open>
  What a promise of the client can be rejected with: an \<open>AxiosError\<close> (an \<open>Error\<close> whose
  \<open>isAxiosError\<close> is \<open>true\<close>), the plain object literal \<open>apiError\<close> that the response
  interceptor builds (not an \<open>Error\<close>, no \<open>isAxiosError\<close> property), or any other
  \<open>Error\<close> with its message.
\<close>

datatype js_error = Axios_error AxiosError | Plain_object ApiError | Other_Error string

subsection \<open>The wire\<close>

text \<open>
  What leaves the process: one entry per HTTP attempt, tagged with the axios object that
  sent it (the instance \<open>this.client\<close> with its interceptors, or the module \<open>axios\<close>
  itself, which has none). The remote side is any function from the attempts made so far
  and the present attempt to what comes back: a response with a status, or no response
  at all (network failure, timeout) with axios's error code and message.
\<close>

datatype channel = Client_instance | Global_axios

record wire_request =
  via :: channel
  w_method :: http_method
  w_baseURL :: string
  w_url :: string
  w_timeout :: nat
  w_headers :: "string \<rightharpoonup> string"
  w_data :: "string option"

datatype http_outcome =
    Http_response nat response_body
  | No_response "string option" string

type_synonym server = "wire_request list \<Rightarrow> wire_request \<Rightarrow> http_outcome"

subsection \<open>State\<close>

record AxiosInstance =
  inst_baseURL :: string
  inst_timeout :: nat
  inst_headers :: "string \<rightharpoonup> string"

record ApiClient =
  client :: AxiosInstance
  accessToken :: "string option"
  refreshToken :: "string option"

text \<open>
  The mutable state the client touches: \<open>TenantLoader.currentTenant\<close>, the singleton
  \<open>apiClient\<close>, and the attempts sent so far. Calls to \<open>Logger\<close> have no effect on any
  of them and are left out.
\<close>

record state =
  currentTenant :: "TenantConfig option"
  apiClient :: ApiClient
  wire :: "wire_request list"

subsection \<open>The axios library, as far as the client depends on it\<close>

text \<open>
  axios is not part of the repository. What the client relies on is written down here:
  \<^item> a call of an instance merges the instance defaults with the configuration of the call,
    runs the request interceptors, sends, settles the promise by the status, and runs the
    response interceptors on the settled promise;
  \<^item> the default \<open>validateStatus\<close> accepts exactly the statuses from 200 to 299;
  \<^item> merging copies properties that axios does not know, so \<open>_retry\<close> survives a resend;
  \<^item> \<open>axios.isAxiosError\<close> holds of the errors that axios itself creates and of nothing
    else;
  \<^item> the module \<open>axios\<close> and an instance made by \<open>axios.create\<close> do not share
    interceptors.
\<close>

text \<open>Decimal digits of a status code, for axios's error message.\<close>

fun show_nat :: "nat \<Rightarrow> string" where
  "show_nat n =
     (if n < 10 then [''0123456789'' ! n]
      else show_nat (n div 10) @ [''0123456789'' ! (n mod 10)])"

declare show_nat.simps [simp del]

text \<open>
  axios resolves a response whose status passes the default \<open>validateStatus\<close>
  (\<open>200 \<le> status < 300\<close>) and rejects every other one with an \<open>AxiosError\<close> that carries
  the response; a request without a response is rejected with an \<open>AxiosError\<close> that
  carries none.
\<close>

definition settle :: "request_config \<Rightarrow> http_outcome \<Rightarrow> AxiosError + AxiosResponse" where
  "settle cfg out =
     (case out of
        Http_response s b \<Rightarrow>
          if 200 \<le> s \<and> s < 300 then Inr \<lparr> res_status = s, res_data = b \<rparr>
          else Inl \<lparr> ae_message = ''Request failed with status code '' @ show_nat s,
                     ae_code = (if s div 100 = 4 then Some ''ERR_BAD_REQUEST''
                                else if s div 100 = 5 then Some ''ERR_BAD_RESPONSE''
                                else None),
                     ae_response = Some \<lparr> res_status = s, res_data = b \<rparr>,
                     ae_config = cfg \<rparr>
      | No_response c m \<Rightarrow>
          Inl \<lparr> ae_message = m, ae_code = c, ae_response = None, ae_config = cfg \<rparr>)"

text \<open>
  An instance merges its defaults under the configuration of the call; properties it does
  not know (\<open>_retry\<close>) are copied.
\<close>

definition mergeConfig :: "AxiosInstance \<Rightarrow> request_config \<Rightarrow> request_config" where
  "mergeConfig inst cfg =
     cfg \<lparr> cfg_timeout := Some (case cfg_timeout cfg of Some t \<Rightarrow> t | None \<Rightarrow> inst_timeout inst),
           headers := inst_headers inst ++ headers cfg \<rparr>"

definition to_wire :: "AxiosInstance \<Rightarrow> request_config \<Rightarrow> wire_request" where
  "to_wire inst cfg =
     \<lparr> via = Client_instance, w_method = req_method cfg, w_baseURL = inst_baseURL inst,
       w_url = url cfg,
       w_timeout = (case cfg_timeout cfg of Some t \<Rightarrow> t | None \<Rightarrow> inst_timeout inst),
       w_headers = headers cfg, w_data = data cfg \<rparr>"

text \<open>An attempt is appended to the wire and answered by the remote side.\<close>

definition send :: "server \<Rightarrow> wire_request \<Rightarrow> state \<Rightarrow> http_outcome \<times> state" where
  "send srv q st = (srv (wire st) q, st \<lparr> wire := wire st @ [q] \<rparr>)"

text \<open>
  \<open>axios.post(url, body)\<close> on the module itself: no base URL, no timeout, none of the
  interceptors or default headers of \<open>this.client\<close> (the library's own negotiation
  headers are not modelled).
\<close>

definition axios_post :: "server \<Rightarrow> string \<Rightarrow> string \<Rightarrow> state \<Rightarrow> (AxiosError + AxiosResponse) \<times> state" where
  "axios_post srv u body st =
     (let cfg = \<lparr> req_method = POST, url = u, data = Some body, cfg_timeout = None,
                   headers = Map.empty, retry = False \<rparr>;
          (out, st') = send srv \<lparr> via = Global_axios, w_method = POST, w_baseURL = [],
                                  w_url = u, w_timeout = 0, w_headers = Map.empty,
                                  w_data = Some body \<rparr> st
      in (settle cfg out, st'))"

subsection \<open>The class \<open>ApiClient\<close>\<close>

definition getTenantConfig :: "process_env \<Rightarrow> state \<Rightarrow> TenantConfig \<times> state" where
  "getTenantConfig env st =
     (let (tenant, cur) = getCurrentTenant env (currentTenant st)
      in (tenant, st \<lparr> currentTenant := cur \<rparr>))"

text \<open>
  The constructor: the instance is created from the tenant that \<open>getTenantConfig()\<close>
  returns at that moment. It is given the state of \<open>TenantLoader\<close> and returns the new
  client with that state.
\<close>

definition ApiClient_new :: "process_env \<Rightarrow> TenantConfig option \<Rightarrow> ApiClient \<times> TenantConfig option" where
  "ApiClient_new env cur0 =
     (let (tenant, cur) = getCurrentTenant env cur0
      in (\<lparr> client = \<lparr> inst_baseURL = baseUrl (api tenant),
                         inst_timeout = timeout (api tenant),
                         inst_headers = [''Content-Type'' \<mapsto> ''application/json'',
                                         ''Accept'' \<mapsto> ''application/json''] \<rparr>,
            accessToken = None, refreshToken = None \<rparr>, cur))"

definition setAccessToken :: "string \<Rightarrow> state \<Rightarrow> state" where
  "setAccessToken token st = st \<lparr> apiClient := (apiClient st) \<lparr> accessToken := Some token \<rparr> \<rparr>"

definition setRefreshToken :: "string \<Rightarrow> state \<Rightarrow> state" where
  "setRefreshToken token st = st \<lparr> apiClient := (apiClient st) \<lparr> refreshToken := Some token \<rparr> \<rparr>"

definition clearTokens :: "state \<Rightarrow> state" where
  "clearTokens st =
     st \<lparr> apiClient := (apiClient st) \<lparr> accessToken := None, refreshToken := None \<rparr> \<rparr>"

text \<open>The request interceptor (the first function given to \<open>interceptors.request.use\<close>).\<close>

definition request_interceptor :: "process_env \<Rightarrow> request_config \<Rightarrow> state \<Rightarrow> request_config \<times> state" where
  "request_interceptor env config st =
     (let config1 = (case accessToken (apiClient st) of
                       None \<Rightarrow> config
                     | Some t \<Rightarrow>
                         if t \<noteq> []
                         then config \<lparr> headers := (headers config)(''Authorization'' \<mapsto> ''Bearer '' @ t) \<rparr>
                         else config);
          (tenant, st1) = getTenantConfig env st
      in (config1 \<lparr> headers := (headers config1)(''X-Tenant-ID'' \<mapsto> tenant_id tenant) \<rparr>, st1))"

text \<open>
  \<open>refreshAccessToken\<close>. Its result is \<open>Inr\<close> of the new token or \<open>null\<close>, or \<open>Inl\<close> of what
  it throws; both paths of its body end in a \<open>return\<close>.
\<close>

definition refreshAccessToken :: "process_env \<Rightarrow> server \<Rightarrow> state \<Rightarrow> (js_error + string option) \<times> state" where
  "refreshAccessToken env srv st =
     (if \<not> truthy_str (refreshToken (apiClient st)) then (Inr None, st)
      else
        let (tenant, st1) = getTenantConfig env st;
            (r, st2) = axios_post srv (baseUrl (api tenant) @ ''/auth/refresh'')
                         (case refreshToken (apiClient st1) of Some t \<Rightarrow> t | None \<Rightarrow> []) st1
        in (case r of
              Inr response \<Rightarrow> (Inr (or_null (body_accessToken (res_data response))), st2)
            | Inl error \<Rightarrow> (Inr None, st2)))"

text \<open>The object literal \<open>apiError\<close> of the response interceptor.\<close>

definition apiError_of :: "AxiosError \<Rightarrow> ApiError" where
  "apiError_of error =
     \<lparr> message = ae_message error,
       code = ae_code error,
       status = (case ae_response error of None \<Rightarrow> None | Some r \<Rightarrow> Some (res_status r)),
       errors = Some (case (case ae_response error of
                              None \<Rightarrow> None
                            | Some r \<Rightarrow> body_errors (res_data r)) of
                        Some es \<Rightarrow> es
                      | None \<Rightarrow> [ae_message error]) \<rparr>"

text \<open>
  One pass of a request through \<open>this.client\<close> up to the settled promise: merge the
  defaults, run the request interceptor, send, settle. The success handler of the
  response interceptor returns the response as it is.
\<close>

definition attempt ::
  "process_env \<Rightarrow> server \<Rightarrow> request_config \<Rightarrow> state \<Rightarrow> (AxiosError + AxiosResponse) \<times> state" where
  "attempt env srv config0 st =
     (let (config, st1) = request_interceptor env (mergeConfig (client (apiClient st)) config0) st;
          (out, st2) = send srv (to_wire (client (apiClient st1)) config) st1
      in (settle config out, st2))"

text \<open>
  The error handler of the response interceptor. It ends in one of two ways: it returns
  \<open>this.client(originalRequest)\<close>, here \<open>Resend\<close> of that configuration, or a rejected
  promise, here \<open>Reject\<close> of the reason. The \<open>catch\<close> block is the \<open>Inl\<close> branch.
\<close>

datatype handler_result = Resend request_config | Reject js_error

definition response_error_interceptor ::
  "process_env \<Rightarrow> server \<Rightarrow> AxiosError \<Rightarrow> state \<Rightarrow> handler_result \<times> state" where
  "response_error_interceptor env srv error st =
     (if (case ae_response error of None \<Rightarrow> False | Some r \<Rightarrow> res_status r = 401)
         \<and> \<not> retry (ae_config error)
      then
        (let originalRequest = (ae_config error) \<lparr> retry := True \<rparr>
         in (case refreshAccessToken env srv st of
               (Inr newToken, st1) \<Rightarrow>
                 (case newToken of
                    None \<Rightarrow> (Reject (Plain_object (apiError_of error)), st1)
                  | Some t \<Rightarrow>
                      if t \<noteq> []
                      then (Resend (originalRequest \<lparr> headers :=
                                      (headers originalRequest)
                                        (''Authorization'' \<mapsto> ''Bearer '' @ t) \<rparr>),
                            setAccessToken t st1)
                      else (Reject (Plain_object (apiError_of error)), st1))
             | (Inl refreshError, st1) \<Rightarrow> (Reject refreshError, clearTokens st1)))
      else (Reject (Plain_object (apiError_of error)), st))"

text \<open>
  A call of the instance, \<open>this.client(config)\<close>: the promise chain of one attempt and the
  response interceptor, which may call the instance again.
\<close>

function client_request ::
  "process_env \<Rightarrow> server \<Rightarrow> request_config \<Rightarrow> state \<Rightarrow> (js_error + AxiosResponse) \<times> state" where
  "client_request env srv config st =
     (case attempt env srv config st of
        (Inr response, st1) \<Rightarrow> (Inr response, st1)
      | (Inl error, st1) \<Rightarrow>
          (case response_error_interceptor env srv error st1 of
             (Resend originalRequest, st2) \<Rightarrow> client_request env srv originalRequest st2
           | (Reject reason, st2) \<Rightarrow> (Inl reason, st2)))"
  by pat_completeness auto
termination
proof (relation "measure (\<lambda>(env, srv, cfg, st). if retry cfg then 0 else 1)", goal_cases)
  case 1
  show ?case by simp
next
  case (2 env srv config st x st1 error y st2 originalRequest)
  from 2(1,2) have "attempt env srv config st = (Inl error, st1)" by simp
  then have a: "retry (ae_config error) = retry config"
    by (auto simp: attempt_def settle_def request_interceptor_def mergeConfig_def
          getTenantConfig_def Let_def
          split: prod.splits http_outcome.splits if_splits option.splits)
  from 2(3,4) have "response_error_interceptor env srv error st1 = (Resend originalRequest, st2)"
    by simp
  then have "\<not> retry (ae_config error) \<and> retry originalRequest"
    by (auto simp: response_error_interceptor_def Let_def
          split: if_splits prod.splits sum.splits option.splits)
  with a show ?case by simp
qed

declare client_request.simps [simp del]

text \<open>\<open>handleError\<close>: \<open>axios.isAxiosError\<close> holds of an \<open>AxiosError\<close> only.\<close>

definition handleError :: "js_error \<Rightarrow> ApiError" where
  "handleError error =
     (case error of
        Axios_error e \<Rightarrow>
          \<lparr> message = or_default (case ae_response e of
                                    None \<Rightarrow> None
                                  | Some r \<Rightarrow> body_message (res_data r)) (ae_message e),
            code = ae_code e,
            status = (case ae_response e of None \<Rightarrow> None | Some r \<Rightarrow> Some (res_status r)),
            errors = Some (case (case ae_response e of
                                   None \<Rightarrow> None
                                 | Some r \<Rightarrow> body_errors (res_data r)) of
                             Some es \<Rightarrow> es
                           | None \<Rightarrow> [ae_message e]) \<rparr>
      | Other_Error m \<Rightarrow> \<lparr> message = m, code = None, status = None, errors = None \<rparr>
      | Plain_object obj \<Rightarrow>
          \<lparr> message = ''Unknown error occurred'', code = None, status = None, errors = None \<rparr>)"

text \<open>
  The configuration that \<open>this.client.get(url, config)\<close> and its siblings hand to the
  instance: the caller's options with method, url and body set by the verb.
\<close>

definition request_of ::
  "http_method \<Rightarrow> string \<Rightarrow> string option \<Rightarrow> AxiosRequestConfig option \<Rightarrow> request_config" where
  "request_of m u d config =
     \<lparr> req_method = m, url = u, data = d,
       cfg_timeout = (case config of None \<Rightarrow> None | Some c \<Rightarrow> opt_timeout c),
       headers = (case config of None \<Rightarrow> Map.empty | Some c \<Rightarrow> opt_headers c),
       retry = False \<rparr>"

text \<open>
  The body that the five verbs share:
  \<open>try { const response = await this.client.verb(...); return { data: response.data, success: true }; }
   catch (error) { throw this.handleError(error); }\<close>
\<close>

definition wrap :: "(js_error + AxiosResponse) \<times> state \<Rightarrow> (ApiError + ApiResponse) \<times> state" where
  "wrap r =
     (case r of
        (Inr response, st) \<Rightarrow>
          (Inr \<lparr> data_of = res_data response, resp_message = None, success = True,
                 resp_errors = None \<rparr>, st)
      | (Inl error, st) \<Rightarrow> (Inl (handleError error), st))"

definition get ::
  "process_env \<Rightarrow> server \<Rightarrow> string \<Rightarrow> AxiosRequestConfig option \<Rightarrow> state \<Rightarrow> (ApiError + ApiResponse) \<times> state" where
  "get env srv u config st =
     wrap (client_request env srv
             (request_of GET u (case config of None \<Rightarrow> None | Some c \<Rightarrow> opt_data c) config) st)"

definition post ::
  "process_env \<Rightarrow> server \<Rightarrow> string \<Rightarrow> string option \<Rightarrow> AxiosRequestConfig option \<Rightarrow> state \<Rightarrow> (ApiError + ApiResponse) \<times> state" where
  "post env srv u d config st = wrap (client_request env srv (request_of POST u d config) st)"

definition put ::
  "process_env \<Rightarrow> server \<Rightarrow> string \<Rightarrow> string option \<Rightarrow> AxiosRequestConfig option \<Rightarrow> state \<Rightarrow> (ApiError + ApiResponse) \<times> state" where
  "put env srv u d config st = wrap (client_request env srv (request_of PUT u d config) st)"

definition patch ::
  "process_env \<Rightarrow> server \<Rightarrow> string \<Rightarrow> string option \<Rightarrow> AxiosRequestConfig option \<Rightarrow> state \<Rightarrow> (ApiError + ApiResponse) \<times> state" where
  "patch env srv u d config st = wrap (client_request env srv (request_of PATCH u d config) st)"

definition delete ::
  "process_env \<Rightarrow> server \<Rightarrow> string \<Rightarrow> AxiosRequestConfig option \<Rightarrow> state \<Rightarrow> (ApiError + ApiResponse) \<times> state" where
  "delete env srv u config st =
     wrap (client_request env srv
             (request_of DELETE u (case config of None \<Rightarrow> None | Some c \<Rightarrow> opt_data c) config) st)"

subsection \<open>Sequences of calls\<close>

text \<open>
  What the rest of the application does with the tenant loader and the client, one call
  after the other; \<open>run\<close> performs a list of such calls and keeps the state.
\<close>

datatype operation =
    LoadTenant "string option"
  | SetAccessToken string
  | SetRefreshToken string
  | ClearTokens
  | Get string "AxiosRequestConfig option"
  | Post string "string option" "AxiosRequestConfig option"
  | Put string "string option" "AxiosRequestConfig option"
  | Patch string "string option" "AxiosRequestConfig option"
  | Delete string "AxiosRequestConfig option"

fun perform :: "process_env \<Rightarrow> server \<Rightarrow> operation \<Rightarrow> state \<Rightarrow> state" where
  "perform env srv (LoadTenant tenantId) st =
     st \<lparr> currentTenant := snd (loadTenant env tenantId (currentTenant st)) \<rparr>"
| "perform env srv (SetAccessToken token) st = setAccessToken token st"
| "perform env srv (SetRefreshToken token) st = setRefreshToken token st"
| "perform env srv ClearTokens st = clearTokens st"
| "perform env srv (Get u config) st = snd (get env srv u config st)"
| "perform env srv (Post u d config) st = snd (post env srv u d config st)"
| "perform env srv (Put u d config) st = snd (put env srv u d config st)"
| "perform env srv (Patch u d config) st = snd (patch env srv u d config st)"
| "perform env srv (Delete u config) st = snd (delete env srv u config st)"

definition run :: "process_env \<Rightarrow> server \<Rightarrow> operation list \<Rightarrow> state \<Rightarrow> state" where
  "run env srv ops st = foldl (\<lambda>s op. perform env srv op s) st ops"

text \<open>The state right after \<open>new ApiClient()\<close>, with nothing sent yet.\<close>

definition initial_state :: "process_env \<Rightarrow> TenantConfig option \<Rightarrow> state" where
  "initial_state env cur0 =
     \<lparr> currentTenant = snd (ApiClient_new env cur0), apiClient = fst (ApiClient_new env cur0),
       wire = [] \<rparr>"

subsection \<open>Observations\<close>

text \<open>The number of attempts on the wire that were sent by a given axios object.\<close>

definition attempts :: "channel \<Rightarrow> state \<Rightarrow> nat" where
  "attempts ch st = length (filter (\<lambda>q. via q = ch) (wire st))"

text \<open>The settled promise is a rejection with a response of status 401.\<close>

definition unauthorized :: "AxiosError + AxiosResponse \<Rightarrow> bool" where
  "unauthorized r =
     (case r of
        Inr response \<Rightarrow> False
      | Inl error \<Rightarrow> (case ae_response error of None \<Rightarrow> False | Some x \<Rightarrow> res_status x = 401))"

text \<open>The configuration that the response interceptor resends after a refresh to \<open>t\<close>.\<close>

definition resent :: "request_config \<Rightarrow> string \<Rightarrow> request_config" where
  "resent config t =
     config \<lparr> retry := True, headers := (headers config)(''Authorization'' \<mapsto> ''Bearer '' @ t) \<rparr>"

subsection \<open>Concrete scenarios\<close>

definition env_unset :: process_env where
  "env_unset = \<lparr> EXPO_PUBLIC_TENANT_ID = None, EXPO_PUBLIC_API_URL_DEV = None \<rparr>"

definition body_empty :: response_body where
  "body_empty =
     \<lparr> payload = [], body_message = None, body_errors = None, body_accessToken = None \<rparr>"

text \<open>A fresh client after a login that stored \<open>A1\<close> and \<open>R1\<close>.\<close>

definition logged_in :: state where
  "logged_in = run env_unset (\<lambda>h q. No_response None []) [SetAccessToken ''A1'', SetRefreshToken ''R1'']
                 (initial_state env_unset None)"

text \<open>
  A remote side that accepts the bearer token \<open>A2\<close> only and refreshes \<open>R1\<close> to \<open>A2\<close>.
\<close>

definition server_refreshing :: server where
  "server_refreshing h q =
     (if via q = Global_axios
      then (if w_data q = Some ''R1''
            then Http_response 200 (body_empty \<lparr> body_accessToken := Some ''A2'' \<rparr>)
            else Http_response 401 body_empty)
      else (if w_headers q ''Authorization'' = Some ''Bearer A2''
            then Http_response 200 (body_empty \<lparr> payload := ''me'' \<rparr>)
            else Http_response 401 body_empty))"

text \<open>
  A remote side that answers every call of the client with 401 and is unreachable for the
  refresh call.
\<close>

definition server_rejecting :: server where
  "server_rejecting h q =
     (if via q = Global_axios then No_response (Some ''ERR_NETWORK'') ''Network Error''
      else Http_response 401 body_empty)"

text \<open>A remote side that answers 404 with a message and an error list in the body.\<close>

definition server_not_found :: server where
  "server_not_found h q =
     Http_response 404 (body_empty \<lparr> body_message := Some ''Not found'',
                                     body_errors := Some [''e1''] \<rparr>)"

text \<open>
  Every key of the two interfaces is present in the tenant's tables, and the upload limit
  is a non-zero number.
\<close>

definition populated :: "TenantConfig \<Rightarrow> bool" where
  "populated t =
     (list_all (\<lambda>k. map_of (featureFlags t) k \<noteq> None) TenantFeatureFlags_keys
      \<and> list_all (\<lambda>k. map_of (permissions t) k \<noteq> None) TenantPermissions_keys
      \<and> (case map_of (featureFlags t) ''maxFileUploadSize'' of Some (JNum n) \<Rightarrow> n \<noteq> 0 | _ \<Rightarrow> False))"

text \<open>A remote side that refreshes to \<open>A2\<close> and still answers every call of the client with 401.\<close>

definition server_refresh_only :: server where
  "server_refresh_only h q =
     (if via q = Global_axios
      then Http_response 200 (body_empty \<lparr> body_accessToken := Some ''A2'' \<rparr>)
      else Http_response 401 body_empty)"

text \<open>A fresh client that holds the access token \<open>A1\<close> and no refresh token.\<close>

definition access_only :: state where
  "access_only = run env_unset (\<lambda>h q. No_response None []) [SetAccessToken ''A1'']
                   (initial_state env_unset None)"

section \<open>Properties of the tenant loader\<close>






text \<open>
  Claim C9. A second \<open>getCurrentTenant()\<close> with no \<open>loadTenant\<close> in between returns the
  descriptor of the first and leaves the loader as the first left it; the default is
  resolved by the first call only, so the second does not depend on the process
  configuration any more.
\<close>

theorem getCurrentTenant_idempotent:
  "getCurrentTenant env' (snd (getCurrentTenant env cur)) = getCurrentTenant env cur"
  by (simp add: getCurrentTenant_def split: option.splits)

lemma isFeatureEnabled_stored:
  "map_of (featureFlags t) k = Some v \<Longrightarrow> isFeatureEnabled env k (Some t) = (v, Some t)"
  by (simp add: isFeatureEnabled_def getCurrentTenant_def)

lemma hasPermission_stored:
  "map_of (permissions t) k = Some v \<Longrightarrow> hasPermission env k (Some t) = (v, Some t)"
  by (simp add: hasPermission_def getCurrentTenant_def)

lemma populated_default: "populated (tenant_default env)"
  by (simp add: populated_def TenantFeatureFlags_keys_def TenantPermissions_keys_def tenant_default_def)

lemma populated_1: "populated tenant_1"
  by (simp add: populated_def TenantFeatureFlags_keys_def TenantPermissions_keys_def tenant_1_def)

lemma populated_2: "populated tenant_2"
  by (simp add: populated_def TenantFeatureFlags_keys_def TenantPermissions_keys_def tenant_2_def)

lemma populated_3: "populated tenant_3"
  by (simp add: populated_def TenantFeatureFlags_keys_def TenantPermissions_keys_def tenant_3_def)

lemma populated_table: "(i, t) \<in> set (tenantConfigs env) \<Longrightarrow> populated t"
  using populated_default populated_1 populated_2 populated_3
  by (auto simp: tenantConfigs_def)

text \<open>
  Claim C10. For every entry of the table that is current, every feature-flag key and
  every permission key is present, so \<open>isFeatureEnabled\<close> and \<open>hasPermission\<close> return the
  stored value and never the fallback \<open>false\<close>; for \<open>maxFileUploadSize\<close> the value is the
  configured number, which is not zero and therefore truthy.
\<close>

theorem flags_populated:
  "\<forall>(i, t) \<in> set (tenantConfigs env).
     (\<forall>k \<in> set TenantFeatureFlags_keys.
        \<exists>v. map_of (featureFlags t) k = Some v \<and> isFeatureEnabled env k (Some t) = (v, Some t))
     \<and> (\<forall>k \<in> set TenantPermissions_keys.
        \<exists>v. map_of (permissions t) k = Some v \<and> hasPermission env k (Some t) = (v, Some t))
     \<and> (\<exists>n. isFeatureEnabled env ''maxFileUploadSize'' (Some t) = (JNum n, Some t) \<and> truthy (JNum n))"
proof (intro ballI, clarify)
  fix i t assume "(i, t) \<in> set (tenantConfigs env)"
  then have p: "populated t" by (rule populated_table)
  have 1: "\<forall>k \<in> set TenantFeatureFlags_keys.
        \<exists>v. map_of (featureFlags t) k = Some v \<and> isFeatureEnabled env k (Some t) = (v, Some t)"
  proof
    fix k assume "k \<in> set TenantFeatureFlags_keys"
    with p obtain v where "map_of (featureFlags t) k = Some v"
      by (auto simp: populated_def list_all_iff)
    then show "\<exists>v. map_of (featureFlags t) k = Some v \<and> isFeatureEnabled env k (Some t) = (v, Some t)"
      by (simp add: isFeatureEnabled_stored)
  qed
  have 2: "\<forall>k \<in> set TenantPermissions_keys.
        \<exists>v. map_of (permissions t) k = Some v \<and> hasPermission env k (Some t) = (v, Some t)"
  proof
    fix k assume "k \<in> set TenantPermissions_keys"
    with p obtain v where "map_of (permissions t) k = Some v"
      by (auto simp: populated_def list_all_iff)
    then show "\<exists>v. map_of (permissions t) k = Some v \<and> hasPermission env k (Some t) = (v, Some t)"
      by (simp add: hasPermission_stored)
  qed
  from p obtain n where "map_of (featureFlags t) ''maxFileUploadSize'' = Some (JNum n)" "n \<noteq> 0"
    by (auto simp: populated_def split: option.splits js_value.splits)
  then have 3: "\<exists>n. isFeatureEnabled env ''maxFileUploadSize'' (Some t) = (JNum n, Some t) \<and> truthy (JNum n)"
    by (auto simp: isFeatureEnabled_stored)
  from 1 2 3 show "(\<forall>k \<in> set TenantFeatureFlags_keys.
        \<exists>v. map_of (featureFlags t) k = Some v \<and> isFeatureEnabled env k (Some t) = (v, Some t))
     \<and> (\<forall>k \<in> set TenantPermissions_keys.
        \<exists>v. map_of (permissions t) k = Some v \<and> hasPermission env k (Some t) = (v, Some t))
     \<and> (\<exists>n. isFeatureEnabled env ''maxFileUploadSize'' (Some t) = (JNum n, Some t) \<and> truthy (JNum n))"
    by blast
qed

theorem flags_populated_witness:
  "(''tenant-3'', tenant_3) \<in> set (tenantConfigs env_unset)
   \<and> ''enableDarkMode'' \<in> set TenantFeatureFlags_keys
   \<and> isFeatureEnabled env_unset ''enableDarkMode'' (Some tenant_3) = (JBool False, Some tenant_3)
   \<and> ''maxUsers'' \<in> set TenantPermissions_keys
   \<and> hasPermission env_unset ''maxUsers'' (Some tenant_3) = (JNum 10, Some tenant_3)
   \<and> isFeatureEnabled env_unset ''maxFileUploadSize'' (Some tenant_3) = (JNum 1048576, Some tenant_3)
   \<and> truthy (JNum 1048576)"
proof -
  have m: "(''tenant-3'', tenant_3) \<in> set (tenantConfigs env_unset)"
    by (simp add: tenantConfigs_def)
  have k1: "''enableDarkMode'' \<in> set TenantFeatureFlags_keys"
    by (simp add: TenantFeatureFlags_keys_def)
  have k2: "''maxUsers'' \<in> set TenantPermissions_keys"
    by (simp add: TenantPermissions_keys_def)
  from flags_populated [of env_unset] m
  have f: "(\<forall>k \<in> set TenantFeatureFlags_keys.
        \<exists>v. map_of (featureFlags tenant_3) k = Some v \<and> isFeatureEnabled env_unset k (Some tenant_3) = (v, Some tenant_3))
     \<and> (\<forall>k \<in> set TenantPermissions_keys.
        \<exists>v. map_of (permissions tenant_3) k = Some v \<and> hasPermission env_unset k (Some tenant_3) = (v, Some tenant_3))
     \<and> (\<exists>n. isFeatureEnabled env_unset ''maxFileUploadSize'' (Some tenant_3) = (JNum n, Some tenant_3) \<and> truthy (JNum n))"
    by blast
  from f k1 obtain v1 where v1: "map_of (featureFlags tenant_3) ''enableDarkMode'' = Some v1"
     "isFeatureEnabled env_unset ''enableDarkMode'' (Some tenant_3) = (v1, Some tenant_3)" by blast
  from f k2 obtain v2 where v2: "map_of (permissions tenant_3) ''maxUsers'' = Some v2"
     "hasPermission env_unset ''maxUsers'' (Some tenant_3) = (v2, Some tenant_3)" by blast
  from f obtain n where n: "isFeatureEnabled env_unset ''maxFileUploadSize'' (Some tenant_3) = (JNum n, Some tenant_3)"
    "truthy (JNum n)" by blast
  from v1(1) have "v1 = JBool False" by (simp add: tenant_3_def)
  moreover from v2(1) have "v2 = JNum 10" by (simp add: tenant_3_def)
  moreover from n(1) have "n = 1048576"
    by (simp add: isFeatureEnabled_def getCurrentTenant_def tenant_3_def)
  ultimately show ?thesis using m k1 k2 v1(2) v2(2) n by simp
qed


section \<open>Properties of the client\<close>

subsection \<open>The steps of a call\<close>

lemma getCurrentTenant_snd: "snd (getCurrentTenant env cur) = Some (fst (getCurrentTenant env cur))"
  by (simp add: getCurrentTenant_def split: option.splits)

lemma getTenantConfig_fst: "fst (getTenantConfig env st) = fst (getCurrentTenant env (currentTenant st))"
  by (simp add: getTenantConfig_def split: prod.splits)

lemma getTenantConfig_snd:
  "snd (getTenantConfig env st) = st \<lparr> currentTenant := snd (getCurrentTenant env (currentTenant st)) \<rparr>"
  by (simp add: getTenantConfig_def split: prod.splits)

lemma request_interceptor_snd:
  "snd (request_interceptor env config st) = snd (getTenantConfig env st)"
  by (simp add: request_interceptor_def Let_def split: prod.splits)

lemma request_interceptor_fst:
  "fst (request_interceptor env config st) =
     config \<lparr> headers := (case accessToken (apiClient st) of
                             None \<Rightarrow> headers config
                           | Some t \<Rightarrow> if t \<noteq> [] then (headers config)(''Authorization'' \<mapsto> ''Bearer '' @ t)
                                       else headers config)
                          (''X-Tenant-ID'' \<mapsto> tenant_id (fst (getCurrentTenant env (currentTenant st)))) \<rparr>"
  by (simp add: request_interceptor_def Let_def getTenantConfig_def split: prod.splits option.splits)

text \<open>An attempt, with the configuration as it is sent.\<close>

lemma attempt_eq:
  "attempt env srv config st =
     (let sent = fst (request_interceptor env (mergeConfig (client (apiClient st)) config) st);
          st1 = snd (getTenantConfig env st)
      in (settle sent (srv (wire st) (to_wire (client (apiClient st)) sent)),
          st1 \<lparr> wire := wire st @ [to_wire (client (apiClient st)) sent] \<rparr>))"
  by (simp add: attempt_def Let_def send_def case_prod_beta request_interceptor_snd
        getTenantConfig_snd)

lemma attempt_apiClient: "apiClient (snd (attempt env srv config st)) = apiClient st"
  by (simp add: attempt_eq Let_def getTenantConfig_snd)

lemma attempt_currentTenant:
  "currentTenant (snd (attempt env srv config st)) = snd (getCurrentTenant env (currentTenant st))"
  by (simp add: attempt_eq Let_def getTenantConfig_snd)

lemma attempt_wire:
  "wire (snd (attempt env srv config st)) =
     wire st @ [to_wire (client (apiClient st))
                 (fst (request_interceptor env (mergeConfig (client (apiClient st)) config) st))]"
  by (simp add: attempt_eq Let_def getTenantConfig_snd)

lemma via_to_wire: "via (to_wire inst cfg) = Client_instance"
  by (simp add: to_wire_def)

lemma settle_Inl_config: "settle cfg out = Inl e \<Longrightarrow> ae_config e = cfg"
  by (auto simp: settle_def split: http_outcome.splits if_splits)

lemma attempt_Inl_config:
  "fst (attempt env srv config st) = Inl e \<Longrightarrow>
   ae_config e = fst (request_interceptor env (mergeConfig (client (apiClient st)) config) st)"
  by (simp add: attempt_eq Let_def settle_Inl_config)

lemma attempt_Inl_retry: "fst (attempt env srv config st) = Inl e \<Longrightarrow> retry (ae_config e) = retry config"
  by (simp add: attempt_Inl_config request_interceptor_fst mergeConfig_def)

lemma axios_post_wire:
  "wire (snd (axios_post srv u b st)) =
     wire st @ [\<lparr> via = Global_axios, w_method = POST, w_baseURL = [], w_url = u, w_timeout = 0,
                   w_headers = Map.empty, w_data = Some b \<rparr>]"
  by (simp add: axios_post_def send_def Let_def)

lemma axios_post_rest:
  "apiClient (snd (axios_post srv u b st)) = apiClient st"
  "currentTenant (snd (axios_post srv u b st)) = currentTenant st"
  by (simp_all add: axios_post_def send_def Let_def)

text \<open>
  \<open>refreshAccessToken\<close> never throws: a failure of the refresh call, like a missing
  refresh token, is the result \<open>null\<close>. It changes neither token.
\<close>

lemma refresh_never_throws: "\<exists>x. fst (refreshAccessToken env srv st) = Inr x"
  by (simp add: refreshAccessToken_def Let_def split: prod.splits sum.splits)

lemma refresh_not_Inl: "fst (refreshAccessToken env srv st) \<noteq> Inl x"
  using refresh_never_throws[of env srv st] by auto

lemma refresh_apiClient: "apiClient (snd (refreshAccessToken env srv st)) = apiClient st"
proof (cases "truthy_str (refreshToken (apiClient st))")
  case False
  then show ?thesis by (simp add: refreshAccessToken_def)
next
  case True
  obtain tenant st1 where g: "getTenantConfig env st = (tenant, st1)" by (cases "getTenantConfig env st")
  then have a1: "apiClient st1 = apiClient st" using getTenantConfig_snd[of env st] by simp
  obtain r st2 where p: "axios_post srv (baseUrl (api tenant) @ ''/auth/refresh'')
        (case refreshToken (apiClient st1) of Some t \<Rightarrow> t | None \<Rightarrow> []) st1 = (r, st2)"
    by (cases "axios_post srv (baseUrl (api tenant) @ ''/auth/refresh'')
        (case refreshToken (apiClient st1) of Some t \<Rightarrow> t | None \<Rightarrow> []) st1")
  then have a2: "apiClient st2 = apiClient st1" using axios_post_rest(1)[of srv _ _ st1] by (metis snd_conv)
  from True g p a1 a2 show ?thesis
    by (simp add: refreshAccessToken_def Let_def split: sum.splits)
qed

lemma refresh_currentTenant:
  "fst (getCurrentTenant env (currentTenant (snd (refreshAccessToken env srv st))))
     = fst (getCurrentTenant env (currentTenant st))"
proof (cases "truthy_str (refreshToken (apiClient st))")
  case False
  then show ?thesis by (simp add: refreshAccessToken_def)
next
  case True
  obtain tenant st1 where g: "getTenantConfig env st = (tenant, st1)" by (cases "getTenantConfig env st")
  then have a1: "currentTenant st1 = snd (getCurrentTenant env (currentTenant st))"
    using getTenantConfig_snd[of env st] by simp
  obtain r st2 where p: "axios_post srv (baseUrl (api tenant) @ ''/auth/refresh'')
        (case refreshToken (apiClient st1) of Some t \<Rightarrow> t | None \<Rightarrow> []) st1 = (r, st2)"
    by (cases "axios_post srv (baseUrl (api tenant) @ ''/auth/refresh'')
        (case refreshToken (apiClient st1) of Some t \<Rightarrow> t | None \<Rightarrow> []) st1")
  then have a2: "currentTenant st2 = currentTenant st1" using axios_post_rest(2)[of srv _ _ st1] by (metis snd_conv)
  from True g p have "currentTenant (snd (refreshAccessToken env srv st)) = currentTenant st2"
    by (simp add: refreshAccessToken_def Let_def split: sum.splits)
  with a1 a2 show ?thesis by (simp add: getCurrentTenant_def split: option.splits)
qed

lemma refresh_Some:
  assumes "fst (refreshAccessToken env srv st) = Inr (Some t)"
  shows "t \<noteq> [] \<and> truthy_str (refreshToken (apiClient st))
         \<and> (\<exists>q. wire (snd (refreshAccessToken env srv st)) = wire st @ [q] \<and> via q = Global_axios)"
proof -
  from assms have True: "truthy_str (refreshToken (apiClient st))"
    by (auto simp: refreshAccessToken_def split: if_splits)
  obtain tenant st1 where g: "getTenantConfig env st = (tenant, st1)" by (cases "getTenantConfig env st")
  then have w1: "wire st1 = wire st" using getTenantConfig_snd[of env st] by simp
  obtain r st2 where p: "axios_post srv (baseUrl (api tenant) @ ''/auth/refresh'')
        (case refreshToken (apiClient st1) of Some t \<Rightarrow> t | None \<Rightarrow> []) st1 = (r, st2)"
    by (cases "axios_post srv (baseUrl (api tenant) @ ''/auth/refresh'')
        (case refreshToken (apiClient st1) of Some t \<Rightarrow> t | None \<Rightarrow> []) st1")
  then have "\<exists>q. wire st2 = wire st1 @ [q] \<and> via q = Global_axios"
    using axios_post_wire[of srv _ _ st1] by (metis snd_conv wire_request.select_convs(1))
  moreover from True g p have "snd (refreshAccessToken env srv st) = st2"
    by (simp add: refreshAccessToken_def Let_def split: sum.splits)
  moreover from True g p assms have "t \<noteq> []"
    by (auto simp: refreshAccessToken_def Let_def or_null_def split: sum.splits option.splits if_splits)
  ultimately show ?thesis using True w1 by simp
qed

text \<open>
  The refresh call goes to the base URL of the tenant that is current when it is made,
  without any header of the client.
\<close>

lemma refresh_request:
  assumes "truthy_str (refreshToken (apiClient st))"
  shows "wire (snd (refreshAccessToken env srv st)) =
           wire st @ [\<lparr> via = Global_axios, w_method = POST, w_baseURL = [],
                         w_url = baseUrl (api (fst (getCurrentTenant env (currentTenant st))))
                                   @ ''/auth/refresh'',
                         w_timeout = 0, w_headers = Map.empty,
                         w_data = refreshToken (apiClient st) \<rparr>]"
  using assms
  by (auto simp: refreshAccessToken_def Let_def case_prod_beta getTenantConfig_fst
        getTenantConfig_snd axios_post_def send_def truthy_str_def
        split: sum.splits option.splits)

lemma handler_retried:
  "retry (ae_config e) \<Longrightarrow>
   response_error_interceptor env srv e st = (Reject (Plain_object (apiError_of e)), st)"
  by (simp add: response_error_interceptor_def)

lemma handler_not_refreshing:
  assumes "\<not> (unauthorized (Inl e) \<and> \<not> retry (ae_config e))"
  shows "response_error_interceptor env srv e st = (Reject (Plain_object (apiError_of e)), st)"
  using assms by (auto simp: response_error_interceptor_def unauthorized_def split: option.splits)

lemma handler_refresh_null:
  assumes "unauthorized (Inl e)" "\<not> retry (ae_config e)"
    and "fst (refreshAccessToken env srv st) = Inr None"
  shows "response_error_interceptor env srv e st
           = (Reject (Plain_object (apiError_of e)), snd (refreshAccessToken env srv st))"
  using assms
  by (auto simp: response_error_interceptor_def unauthorized_def Let_def
        split: option.splits prod.splits sum.splits)

lemma handler_refreshed:
  assumes "\<not> retry (ae_config e)" "unauthorized (Inl e)"
    and "refreshAccessToken env srv st = (Inr (Some t), st')"
  shows "response_error_interceptor env srv e st = (Resend (resent (ae_config e) t), setAccessToken t st')"
proof -
  from assms(3) have "fst (refreshAccessToken env srv st) = Inr (Some t)" by simp
  then have "t \<noteq> []" using refresh_Some by blast
  with assms show ?thesis
    by (simp add: response_error_interceptor_def unauthorized_def resent_def Let_def)
qed

lemma handler_client:
  "client (apiClient (snd (response_error_interceptor env srv e st))) = client (apiClient st)"
proof -
  obtain x st' where r: "refreshAccessToken env srv st = (x, st')" by (cases "refreshAccessToken env srv st")
  then have "apiClient st' = apiClient st" using refresh_apiClient[of env srv st] by simp
  with r show ?thesis
    by (simp add: response_error_interceptor_def Let_def setAccessToken_def clearTokens_def
          split: sum.splits option.splits)
qed

lemma client_request_retried:
  assumes "retry config"
  shows "client_request env srv config st =
     (case attempt env srv config st of
        (Inr response, st1) \<Rightarrow> (Inr response, st1)
      | (Inl error, st1) \<Rightarrow> (Inl (Plain_object (apiError_of error)), st1))"
proof (cases "attempt env srv config st")
  case (Pair r st1)
  show ?thesis
  proof (cases r)
    case (Inr response)
    with Pair show ?thesis by (simp add: client_request.simps)
  next
    case (Inl error)
    with Pair have "retry (ae_config error)" using attempt_Inl_retry[of env srv config st error] assms by simp
    then have "response_error_interceptor env srv error st1 = (Reject (Plain_object (apiError_of error)), st1)"
      by (rule handler_retried)
    with Pair Inl show ?thesis by (simp add: client_request.simps)
  qed
qed

lemma retried_fst:
  "fst (case p of
          (Inr response, st3) \<Rightarrow> (Inr response, st3)
        | (Inl error', st3) \<Rightarrow> (Inl (Plain_object (apiError_of error')), st3))
   = (case fst p of
        Inr response \<Rightarrow> Inr response
      | Inl error' \<Rightarrow> Inl (Plain_object (apiError_of error')))"
  by (cases p) (simp split: sum.splits)

lemma retried_snd:
  "snd (case attempt env srv config st of
          (Inr response, st3) \<Rightarrow> (Inr response, st3)
        | (Inl error', st3) \<Rightarrow> (Inl (Plain_object (apiError_of error')), st3))
   = snd (attempt env srv config st)"
  by (simp split: prod.splits sum.splits)

lemma refreshed_unfold:
  assumes "\<not> retry config"
    and "attempt env srv config st = (Inl error, st1)"
    and "unauthorized (Inl error)"
    and "refreshAccessToken env srv st1 = (Inr (Some t), st2)"
  shows "client_request env srv config st =
           (case attempt env srv (resent (ae_config error) t) (setAccessToken t st2) of
              (Inr response, st3) \<Rightarrow> (Inr response, st3)
            | (Inl error', st3) \<Rightarrow> (Inl (Plain_object (apiError_of error')), st3))"
proof -
  from assms(2) have "retry (ae_config error) = retry config"
    using attempt_Inl_retry[of env srv config st error] by simp
  with assms(1) have "\<not> retry (ae_config error)" by simp
  then have "response_error_interceptor env srv error st1
               = (Resend (resent (ae_config error) t), setAccessToken t st2)"
    using assms(3,4) by (rule handler_refreshed)
  with assms(2) have "client_request env srv config st
      = client_request env srv (resent (ae_config error) t) (setAccessToken t st2)"
    by (simp add: client_request.simps[of env srv config st])
  moreover have "retry (resent (ae_config error) t)" by (simp add: resent_def)
  ultimately show ?thesis by (simp add: client_request_retried)
qed

text \<open>The call of the instance without recursion: at most two attempts and one refresh.\<close>

lemma client_request_eq:
  "client_request env srv config st =
     (case attempt env srv config st of
        (Inr response, st1) \<Rightarrow> (Inr response, st1)
      | (Inl error, st1) \<Rightarrow>
          if unauthorized (Inl error) \<and> \<not> retry config
          then (case fst (refreshAccessToken env srv st1) of
                  Inr (Some t) \<Rightarrow>
                    (case attempt env srv (resent (ae_config error) t)
                            (setAccessToken t (snd (refreshAccessToken env srv st1))) of
                       (Inr response, st3) \<Rightarrow> (Inr response, st3)
                     | (Inl error', st3) \<Rightarrow> (Inl (Plain_object (apiError_of error')), st3))
                | Inr None \<Rightarrow>
                    (Inl (Plain_object (apiError_of error)), snd (refreshAccessToken env srv st1))
                | Inl refreshError \<Rightarrow>
                    (Inl refreshError, clearTokens (snd (refreshAccessToken env srv st1))))
          else (Inl (Plain_object (apiError_of error)), st1))"
proof (cases "attempt env srv config st")
  case (Pair r st1)
  show ?thesis
  proof (cases r)
    case (Inr response)
    with Pair show ?thesis by (simp add: client_request.simps[of env srv config st])
  next
    case (Inl error)
    with Pair have rt: "retry (ae_config error) = retry config"
      using attempt_Inl_retry[of env srv config st error] by simp
    show ?thesis
    proof (cases "unauthorized (Inl error) \<and> \<not> retry config")
      case False
      with rt have "response_error_interceptor env srv error st1
                      = (Reject (Plain_object (apiError_of error)), st1)"
        by (intro handler_not_refreshing) simp
      with Pair Inl False show ?thesis by (auto simp: client_request.simps[of env srv config st])
    next
      case True
      obtain x where x: "fst (refreshAccessToken env srv st1) = Inr x"
        using refresh_never_throws by blast
      show ?thesis
      proof (cases x)
        case None
        with x True rt have "response_error_interceptor env srv error st1
            = (Reject (Plain_object (apiError_of error)), snd (refreshAccessToken env srv st1))"
          by (intro handler_refresh_null) simp_all
        with Pair Inl True x None show ?thesis
          by (simp add: client_request.simps[of env srv config st])
      next
        case (Some t)
        with x have "refreshAccessToken env srv st1 = (Inr (Some t), snd (refreshAccessToken env srv st1))"
          by (simp add: prod_eq_iff)
        from refreshed_unfold[OF _ Pair[unfolded Inl] _ this] True
        have "client_request env srv config st =
           (case attempt env srv (resent (ae_config error) t)
                   (setAccessToken t (snd (refreshAccessToken env srv st1))) of
              (Inr response, st3) \<Rightarrow> (Inr response, st3)
            | (Inl error', st3) \<Rightarrow> (Inl (Plain_object (apiError_of error')), st3))"
          by simp
        with Pair Inl True x Some show ?thesis by simp
      qed
    qed
  qed
qed

lemma client_request_client:
  "client (apiClient (snd (client_request env srv config st))) = client (apiClient st)"
proof (induction env srv config st rule: client_request.induct)
  case (1 env srv config st)
  obtain r st1 where a: "attempt env srv config st = (r, st1)" by (cases "attempt env srv config st")
  then have c1: "apiClient st1 = apiClient st" using attempt_apiClient[of env srv config st] by simp
  show ?case
  proof (cases r)
    case (Inr response)
    with a c1 show ?thesis by (simp add: client_request.simps)
  next
    case (Inl error)
    obtain h st2 where h: "response_error_interceptor env srv error st1 = (h, st2)"
      by (cases "response_error_interceptor env srv error st1")
    then have c2: "client (apiClient st2) = client (apiClient st1)"
      using handler_client[of env srv error st1] by simp
    show ?thesis
    proof (cases h)
      case (Reject reason)
      with a Inl h c1 c2 show ?thesis by (simp add: client_request.simps)
    next
      case (Resend originalRequest)
      have "client (apiClient (snd (client_request env srv originalRequest st2))) = client (apiClient st2)"
        using "1.IH" a Inl h Resend by simp
      with a Inl h Resend c1 c2 show ?thesis by (simp add: client_request.simps)
    qed
  qed
qed

lemma client_request_rejects_plain:
  assumes "fst (client_request env srv config st) = Inl x"
  shows "\<exists>e. x = Plain_object e"
  using assms unfolding client_request_eq
  by (auto simp: refresh_not_Inl split: prod.splits sum.splits if_splits option.splits)

lemma client_request_keeps_refreshToken:
  "refreshToken (apiClient (snd (client_request env srv config st))) = refreshToken (apiClient st)"
proof -
  obtain y where y: "fst (refreshAccessToken env srv (snd (attempt env srv config st))) = Inr y"
    using refresh_never_throws by blast
  have a: "apiClient (snd (refreshAccessToken env srv (snd (attempt env srv config st)))) = apiClient st"
    by (simp add: refresh_apiClient attempt_apiClient)
  show ?thesis
    unfolding client_request_eq
    using y a attempt_apiClient[of env srv config st]
    by (cases "attempt env srv config st")
       (auto simp: retried_snd attempt_apiClient setAccessToken_def
          split: prod.splits sum.splits if_splits option.splits)
qed

lemma wrap_snd: "snd (wrap r) = snd r"
  by (simp add: wrap_def split: prod.splits sum.splits)

lemma failure_is_unknown_error:
  assumes "fst (wrap (client_request env srv config st)) = Inl e"
  shows "e = \<lparr> message = ''Unknown error occurred'', code = None, status = None, errors = None \<rparr>"
proof -
  from assms obtain x where x: "fst (client_request env srv config st) = Inl x" "e = handleError x"
    by (auto simp: wrap_def split: prod.splits sum.splits)
  then obtain p where "x = Plain_object p" using client_request_rejects_plain by blast
  with x(2) show ?thesis by (simp add: handleError_def)
qed

text \<open>A verb that returns, returns the body of the response with \<open>success: true\<close>.\<close>

lemma wrap_success:
  assumes "fst (wrap r) = Inr a"
  shows "success a \<and> (\<exists>response. fst r = Inr response \<and> data_of a = res_data response)"
  using assms by (auto simp: wrap_def split: prod.splits sum.splits)

lemma perform_client: "client (apiClient (perform env srv op st)) = client (apiClient st)"
  by (cases op)
     (simp_all add: get_def post_def put_def patch_def delete_def wrap_snd client_request_client
        setAccessToken_def setRefreshToken_def clearTokens_def)

lemma run_client: "client (apiClient (run env srv ops st)) = client (apiClient st)"
  unfolding run_def by (induction ops arbitrary: st) (simp_all add: perform_client)

lemma attempts_append:
  "wire st' = wire st @ [q] \<Longrightarrow> attempts ch st' = attempts ch st + (if via q = ch then 1 else 0)"
  by (simp add: attempts_def)

lemma attempts_attempt:
  "attempts ch (snd (attempt env srv config st)) = attempts ch st + (if ch = Client_instance then 1 else 0)"
  using attempts_append[OF attempt_wire, of ch env srv config st] by (auto simp: via_to_wire)

lemma attempts_setAccessToken: "attempts ch (setAccessToken t st) = attempts ch st"
  by (simp add: attempts_def setAccessToken_def)

subsection \<open>The scenarios, evaluated\<close>

lemma show_nat_401: "show_nat 401 = ''401''"
  by (simp add: show_nat.simps)

lemma show_nat_404: "show_nat 404 = ''404''"
  by (simp add: show_nat.simps)

lemma tenant_default_fields:
  "tenant_id (tenant_default env) = ''default''"
  "timeout (api (tenant_default env)) = 30000"
  "baseUrl (api (tenant_default env_unset)) = ''https://api-dev.example.com''"
  by (simp_all add: tenant_default_def env_unset_def or_default_def)

lemma resolve_default_unset: "resolve_default env_unset = tenant_default env_unset"
  by (simp add: resolve_default_def defaultTenantId_def tenantConfigs_def env_unset_def
        or_default_def)

lemma initial_state_unset:
  "initial_state env_unset None =
     \<lparr> currentTenant = Some (tenant_default env_unset),
       apiClient = \<lparr> client = \<lparr> inst_baseURL = ''https://api-dev.example.com'',
                                inst_timeout = 30000,
                                inst_headers = [''Content-Type'' \<mapsto> ''application/json'',
                                                ''Accept'' \<mapsto> ''application/json''] \<rparr>,
                     accessToken = None, refreshToken = None \<rparr>,
       wire = [] \<rparr>"
  by (simp add: initial_state_def ApiClient_new_def getCurrentTenant_def resolve_default_unset
        tenant_default_fields)

lemma logged_in_eq:
  "logged_in =
     \<lparr> currentTenant = Some (tenant_default env_unset),
       apiClient = \<lparr> client = \<lparr> inst_baseURL = ''https://api-dev.example.com'',
                                inst_timeout = 30000,
                                inst_headers = [''Content-Type'' \<mapsto> ''application/json'',
                                                ''Accept'' \<mapsto> ''application/json''] \<rparr>,
                     accessToken = Some ''A1'', refreshToken = Some ''R1'' \<rparr>,
       wire = [] \<rparr>"
  by (simp add: logged_in_def run_def initial_state_unset setAccessToken_def setRefreshToken_def)

lemma access_only_eq:
  "access_only =
     \<lparr> currentTenant = Some (tenant_default env_unset),
       apiClient = \<lparr> client = \<lparr> inst_baseURL = ''https://api-dev.example.com'',
                                inst_timeout = 30000,
                                inst_headers = [''Content-Type'' \<mapsto> ''application/json'',
                                                ''Accept'' \<mapsto> ''application/json''] \<rparr>,
                     accessToken = Some ''A1'', refreshToken = None \<rparr>,
       wire = [] \<rparr>"
  by (simp add: access_only_def run_def initial_state_unset setAccessToken_def)

lemmas eval_defs =
  attempt_eq Let_def request_interceptor_fst getTenantConfig_snd getTenantConfig_fst
  getCurrentTenant_def mergeConfig_def to_wire_def settle_def request_of_def
  refreshAccessToken_def axios_post_def send_def case_prod_beta truthy_str_def or_null_def
  tenant_default_fields unauthorized_def body_empty_def

lemmas eval_defs2 = eval_defs logged_in_eq show_nat_401 show_nat_404 apiError_of_def handleError_def
  wrap_def get_def client_request_eq resent_def setAccessToken_def

lemma Inl_projl: "unauthorized x \<Longrightarrow> x = Inl (projl x)"
  by (cases x) (simp_all add: unauthorized_def)

subsection \<open>Refresh and retry\<close>

text \<open>
  Claim C1. A request whose first attempt is answered with 401, when the refresh then
  yields a token, is attempted exactly once more. The call of the instance ends as that
  second attempt ends: with its response, or with the rejection built from its error,
  also when that error is another 401. Over the whole call the instance has sent two
  attempts and the refresh call was made once.
\<close>

theorem refresh_then_single_retry:
  assumes "\<not> retry config"
    and "attempt env srv config st = (Inl error, st1)"
    and "unauthorized (Inl error)"
    and "refreshAccessToken env srv st1 = (Inr (Some t), st2)"
  shows "client_request env srv config st =
           (case attempt env srv (resent (ae_config error) t) (setAccessToken t st2) of
              (Inr response, st3) \<Rightarrow> (Inr response, st3)
            | (Inl error', st3) \<Rightarrow> (Inl (Plain_object (apiError_of error')), st3))
         \<and> attempts Client_instance (snd (client_request env srv config st))
             = attempts Client_instance st + 2
         \<and> attempts Global_axios (snd (client_request env srv config st))
             = attempts Global_axios st + 1"
proof -
  note u = refreshed_unfold[OF assms]
  from assms(2) have s1: "st1 = snd (attempt env srv config st)" by simp
  from assms(4) have "fst (refreshAccessToken env srv st1) = Inr (Some t)"
    and s2: "st2 = snd (refreshAccessToken env srv st1)" by simp_all
  then obtain q where q: "wire st2 = wire st1 @ [q]" "via q = Global_axios"
    using refresh_Some[of env srv st1 t] by auto
  have n1: "attempts ch st1 = attempts ch st + (if ch = Client_instance then 1 else 0)" for ch
    unfolding s1 by (rule attempts_attempt)
  have n2: "attempts ch st2 = attempts ch st1 + (if ch = Global_axios then 1 else 0)" for ch
    using attempts_append[OF q(1), of ch] q(2) by auto
  have n3: "attempts ch (snd (client_request env srv config st))
              = attempts ch st2 + (if ch = Client_instance then 1 else 0)" for ch
    unfolding u retried_snd by (simp add: attempts_attempt attempts_setAccessToken)
  from n1 n2 n3 u show ?thesis by simp
qed

lemma first_attempt_eval:
  "unauthorized (fst (attempt env_unset server_refresh_only (request_of GET ''/users/me'' None None) logged_in))"
  by (simp add: eval_defs logged_in_eq server_refresh_only_def)

lemma refresh_eval:
  "fst (refreshAccessToken env_unset server_refresh_only
         (snd (attempt env_unset server_refresh_only (request_of GET ''/users/me'' None None) logged_in)))
   = Inr (Some ''A2'')"
  by (simp add: eval_defs logged_in_eq server_refresh_only_def)

theorem refresh_then_single_retry_witness:
  "\<not> retry (request_of GET ''/users/me'' None None)
   \<and> unauthorized (fst (attempt env_unset server_refresh_only (request_of GET ''/users/me'' None None) logged_in))
   \<and> fst (refreshAccessToken env_unset server_refresh_only
         (snd (attempt env_unset server_refresh_only (request_of GET ''/users/me'' None None) logged_in)))
       = Inr (Some ''A2'')
   \<and> attempts Client_instance
        (snd (client_request env_unset server_refresh_only (request_of GET ''/users/me'' None None) logged_in)) = 2
   \<and> attempts Global_axios
        (snd (client_request env_unset server_refresh_only (request_of GET ''/users/me'' None None) logged_in)) = 1
   \<and> (\<exists>e. fst (client_request env_unset server_refresh_only (request_of GET ''/users/me'' None None) logged_in)
           = Inl (Plain_object e) \<and> status e = Some 401)"
proof -
  let ?cfg = "request_of GET ''/users/me'' None None"
  let ?a = "attempt env_unset server_refresh_only ?cfg logged_in"
  let ?r = "refreshAccessToken env_unset server_refresh_only (snd ?a)"
  have h0: "\<not> retry ?cfg" by (simp add: request_of_def)
  have u: "unauthorized (fst ?a)" by (rule first_attempt_eval)
  then have h1: "?a = (Inl (projl (fst ?a)), snd ?a)" and h2: "unauthorized (Inl (projl (fst ?a)))"
    using Inl_projl[of "fst ?a"] by (simp_all add: prod_eq_iff)
  have r: "fst ?r = Inr (Some ''A2'')" by (rule refresh_eval)
  then have h3: "?r = (Inr (Some ''A2''), snd ?r)" by (simp add: prod_eq_iff)
  note t = refresh_then_single_retry[OF h0 h1 h2 h3]
  let ?again = "attempt env_unset server_refresh_only (resent (ae_config (projl (fst ?a))) ''A2'')
                  (setAccessToken ''A2'' (snd ?r))"
  from t have t1: "client_request env_unset server_refresh_only ?cfg logged_in =
           (case ?again of
              (Inr response, st3) \<Rightarrow> (Inr response, st3)
            | (Inl error', st3) \<Rightarrow> (Inl (Plain_object (apiError_of error')), st3))"
    by (rule conjunct1)
  from t have t2: "attempts Client_instance (snd (client_request env_unset server_refresh_only ?cfg logged_in))
                     = attempts Client_instance logged_in + 2"
    by (rule conjunct1[OF conjunct2])
  from t have t3: "attempts Global_axios (snd (client_request env_unset server_refresh_only ?cfg logged_in))
                     = attempts Global_axios logged_in + 1"
    by (rule conjunct2[OF conjunct2])
  have z: "attempts Client_instance logged_in = 0" "attempts Global_axios logged_in = 0"
    by (simp_all add: attempts_def logged_in_eq)
  have "\<exists>e. fst ?again = Inl e \<and> ae_response e = Some \<lparr> res_status = 401, res_data = body_empty \<rparr>"
    by (simp add: attempt_eq Let_def settle_def server_refresh_only_def via_to_wire)
  then obtain e where e: "fst ?again = Inl e"
      "ae_response e = Some \<lparr> res_status = 401, res_data = body_empty \<rparr>"
    by blast
  from e(1) have "fst (case ?again of
              (Inr response, st3) \<Rightarrow> (Inr response, st3)
            | (Inl error', st3) \<Rightarrow> (Inl (Plain_object (apiError_of error')), st3))
          = Inl (Plain_object (apiError_of e))"
    by (simp add: retried_fst)
  with t1 have c1: "fst (client_request env_unset server_refresh_only ?cfg logged_in)
                  = Inl (Plain_object (apiError_of e))"
    by simp
  from e(2) have c2: "status (apiError_of e) = Some 401" by (simp add: apiError_of_def)
  from t2 z(1) have c3: "attempts Client_instance
        (snd (client_request env_unset server_refresh_only ?cfg logged_in)) = 2" by simp
  from t3 z(2) have c4: "attempts Global_axios
        (snd (client_request env_unset server_refresh_only ?cfg logged_in)) = 1" by simp
  from c1 c2 have c5: "\<exists>e. fst (client_request env_unset server_refresh_only ?cfg logged_in)
           = Inl (Plain_object e) \<and> status e = Some 401" by blast
  from h0 u r c3 c4 c5 show ?thesis by (intro conjI)
qed

text \<open>
  Claim C4. Under the same conditions the new token becomes the stored access token, the
  stored refresh token is the one from before the call, and the attempt sent last is the
  original request (same method, url and body) with \<open>Authorization: Bearer\<close> followed by
  the new token. The witness is the scenario of the claim: \<open>A1\<close> and \<open>R1\<close> stored, a 401
  for \<open>/users/me\<close>, a refresh of \<open>R1\<close> to \<open>A2\<close>.
\<close>

theorem refreshed_token_replaces_access_token_only:
  assumes "\<not> retry config"
    and "attempt env srv config st = (Inl error, st1)"
    and "unauthorized (Inl error)"
    and "refreshAccessToken env srv st1 = (Inr (Some t), st2)"
  shows "accessToken (apiClient (snd (client_request env srv config st))) = Some t
         \<and> refreshToken (apiClient (snd (client_request env srv config st)))
             = refreshToken (apiClient st)
         \<and> (\<exists>q. wire (snd (client_request env srv config st)) = wire st2 @ [q]
                \<and> via q = Client_instance
                \<and> w_method q = req_method config \<and> w_url q = url config \<and> w_data q = data config
                \<and> w_headers q ''Authorization'' = Some (''Bearer '' @ t))"
proof -
  let ?again = "attempt env srv (resent (ae_config error) t) (setAccessToken t st2)"
  have u: "snd (client_request env srv config st) = snd ?again"
    unfolding refreshed_unfold[OF assms] by (rule retried_snd)
  from assms(2) have a1: "apiClient st1 = apiClient st"
    using attempt_apiClient[of env srv config st] by simp
  from assms(4) have a2: "apiClient st2 = apiClient st1"
    using refresh_apiClient[of env srv st1] by simp
  from assms(4) have "fst (refreshAccessToken env srv st1) = Inr (Some t)" by simp
  then have t: "t \<noteq> []" using refresh_Some by blast
  have tok: "apiClient (snd ?again) = (apiClient st) \<lparr> accessToken := Some t \<rparr>"
    by (simp add: attempt_apiClient setAccessToken_def a1 a2)
  from assms(2) have c: "ae_config error
      = fst (request_interceptor env (mergeConfig (client (apiClient st)) config) st)"
    using attempt_Inl_config[of env srv config st error] by simp
  have f: "req_method (ae_config error) = req_method config" "url (ae_config error) = url config"
    "data (ae_config error) = data config"
    unfolding c by (simp_all add: request_interceptor_fst mergeConfig_def)
  let ?q = "to_wire (client (apiClient (setAccessToken t st2)))
              (fst (request_interceptor env
                 (mergeConfig (client (apiClient (setAccessToken t st2))) (resent (ae_config error) t))
                 (setAccessToken t st2)))"
  have w: "wire (snd ?again) = wire st2 @ [?q]"
    using attempt_wire[of env srv "resent (ae_config error) t" "setAccessToken t st2"]
    by (simp add: setAccessToken_def)
  have h: "w_headers ?q ''Authorization'' = Some (''Bearer '' @ t)"
    using t by (simp add: to_wire_def request_interceptor_fst setAccessToken_def)
  have g: "w_method ?q = req_method config" "w_url ?q = url config" "w_data ?q = data config"
    using f by (simp_all add: to_wire_def request_interceptor_fst mergeConfig_def resent_def)
  from u tok w h g show ?thesis by (simp add: via_to_wire)
qed

theorem refreshed_token_replaces_access_token_only_witness:
  "\<not> retry (request_of GET ''/users/me'' None None)
   \<and> unauthorized (fst (attempt env_unset server_refreshing (request_of GET ''/users/me'' None None) logged_in))
   \<and> fst (refreshAccessToken env_unset server_refreshing
         (snd (attempt env_unset server_refreshing (request_of GET ''/users/me'' None None) logged_in)))
       = Inr (Some ''A2'')
   \<and> accessToken (apiClient logged_in) = Some ''A1''
   \<and> refreshToken (apiClient logged_in) = Some ''R1''
   \<and> accessToken (apiClient (snd (get env_unset server_refreshing ''/users/me'' None logged_in))) = Some ''A2''
   \<and> refreshToken (apiClient (snd (get env_unset server_refreshing ''/users/me'' None logged_in))) = Some ''R1''
   \<and> (\<exists>q. last (wire (snd (get env_unset server_refreshing ''/users/me'' None logged_in))) = q
          \<and> via q = Client_instance \<and> w_method q = GET \<and> w_url q = ''/users/me''
          \<and> w_headers q ''Authorization'' = Some ''Bearer A2'')"
proof -
  let ?cfg = "request_of GET ''/users/me'' None None"
  let ?a = "attempt env_unset server_refreshing ?cfg logged_in"
  let ?r = "refreshAccessToken env_unset server_refreshing (snd ?a)"
  let ?st = "snd (client_request env_unset server_refreshing ?cfg logged_in)"
  have g: "snd (get env_unset server_refreshing ''/users/me'' None logged_in) = ?st"
    by (simp add: get_def wrap_snd)
  have h0: "\<not> retry ?cfg" by (simp add: request_of_def)
  have u: "unauthorized (fst ?a)"
    by (simp add: eval_defs logged_in_eq server_refreshing_def)
  then have h1: "?a = (Inl (projl (fst ?a)), snd ?a)" and h2: "unauthorized (Inl (projl (fst ?a)))"
    using Inl_projl[of "fst ?a"] by (simp_all add: prod_eq_iff)
  have r: "fst ?r = Inr (Some ''A2'')"
    by (simp add: eval_defs logged_in_eq server_refreshing_def)
  then have h3: "?r = (Inr (Some ''A2''), snd ?r)" by (simp add: prod_eq_iff)
  note t = refreshed_token_replaces_access_token_only[OF h0 h1 h2 h3]
  from t have t1: "accessToken (apiClient ?st) = Some ''A2''" by (rule conjunct1)
  from t have t2: "refreshToken (apiClient ?st) = refreshToken (apiClient logged_in)"
    by (rule conjunct1[OF conjunct2])
  from t obtain q where q: "wire ?st = wire (snd ?r) @ [q]" "via q = Client_instance"
      "w_method q = req_method ?cfg" "w_url q = url ?cfg"
      "w_headers q ''Authorization'' = Some (''Bearer '' @ ''A2'')"
    by blast
  from q(1) have l: "last (wire ?st) = q" by simp
  have k: "accessToken (apiClient logged_in) = Some ''A1''" "refreshToken (apiClient logged_in) = Some ''R1''"
    by (simp_all add: logged_in_eq)
  from q(3,4) have m: "w_method q = GET" "w_url q = ''/users/me''" by (simp_all add: request_of_def)
  from q(5) have a: "w_headers q ''Authorization'' = Some ''Bearer A2''" by simp
  from l q(2) m a have e: "\<exists>q. last (wire ?st) = q
          \<and> via q = Client_instance \<and> w_method q = GET \<and> w_url q = ''/users/me''
          \<and> w_headers q ''Authorization'' = Some ''Bearer A2''" by blast
  from t2 k(2) have t2': "refreshToken (apiClient ?st) = Some ''R1''" by simp
  from h0 u r k t1 t2' e show ?thesis unfolding g by (intro conjI)
qed

subsection \<open>A refresh that fails\<close>

text \<open>
  Claim C2 says that after a 401 whose refresh fails, or for which no refresh token is
  held, both stored tokens are empty and the next call goes out without
  \<open>Authorization\<close>. The code does not do that: \<open>refreshAccessToken\<close> turns every failure
  into \<open>null\<close>, and the only branch that clears the tokens is the \<open>catch\<close> block, which a
  \<open>null\<close> does not reach. With \<open>A1\<close> and \<open>R1\<close> stored and the refresh call failing, both
  are still stored after the failed \<open>get\<close>, and the next \<open>get\<close> carries \<open>Bearer A1\<close> again;
  with \<open>A1\<close> alone, \<open>A1\<close> stays and is sent again.
\<close>

theorem tokens_survive_failed_refresh:
  "fst (get env_unset server_rejecting ''/users/me'' None logged_in)
     = Inl \<lparr> message = ''Unknown error occurred'', code = None, status = None, errors = None \<rparr>
   \<and> accessToken (apiClient (snd (get env_unset server_rejecting ''/users/me'' None logged_in))) = Some ''A1''
   \<and> refreshToken (apiClient (snd (get env_unset server_rejecting ''/users/me'' None logged_in))) = Some ''R1''
   \<and> map (\<lambda>q. (via q, w_headers q ''Authorization''))
        (wire (snd (get env_unset server_rejecting ''/users/me'' None
                      (snd (get env_unset server_rejecting ''/users/me'' None logged_in)))))
       = [(Client_instance, Some ''Bearer A1''), (Global_axios, None),
          (Client_instance, Some ''Bearer A1''), (Global_axios, None)]
   \<and> accessToken (apiClient access_only) = Some ''A1''
   \<and> refreshToken (apiClient access_only) = None
   \<and> accessToken (apiClient (snd (get env_unset server_rejecting ''/users/me'' None access_only)))
       = Some ''A1''
   \<and> map (\<lambda>q. (via q, w_headers q ''Authorization''))
        (wire (snd (get env_unset server_rejecting ''/users/me'' None
                      (snd (get env_unset server_rejecting ''/users/me'' None access_only)))))
       = [(Client_instance, Some ''Bearer A1''), (Client_instance, Some ''Bearer A1'')]"
  by (simp add: eval_defs2 access_only_eq server_rejecting_def)

text \<open>
  Claim C3 says that the error raised after a failed refresh describes the refresh
  failure. In the code the refresh call fails with a network error here and returns
  \<open>null\<close>; the promise of the instance is then rejected with the object built from the
  original 401, and \<open>get\<close> throws \<open>Unknown error occurred\<close>. The network error is in
  neither.
\<close>

theorem original_401_surfaces_after_failed_refresh:
  "fst (refreshAccessToken env_unset server_rejecting
          (snd (attempt env_unset server_rejecting (request_of GET ''/users/me'' None None) logged_in)))
     = Inr None
   \<and> fst (client_request env_unset server_rejecting (request_of GET ''/users/me'' None None) logged_in)
     = Inl (Plain_object \<lparr> message = ''Request failed with status code 401'',
                            code = Some ''ERR_BAD_REQUEST'', status = Some 401,
                            errors = Some [''Request failed with status code 401''] \<rparr>)
   \<and> fst (get env_unset server_rejecting ''/users/me'' None logged_in)
     = Inl \<lparr> message = ''Unknown error occurred'', code = None, status = None, errors = None \<rparr>"
  by (simp add: eval_defs2 server_rejecting_def)

subsection \<open>The Authorization header\<close>

text \<open>
  Claim C5 as stated, second half: a request issued while no access token is held has no
  \<open>Authorization\<close> header. It has one when the caller's options supply it: the
  interceptor sets the header when a token is held and otherwise leaves the
  configuration as it is.
\<close>

theorem caller_authorization_sent_without_token:
  "accessToken (apiClient (initial_state env_unset None)) = None
   \<and> length (wire (snd (get env_unset server_not_found ''/x''
                          (Some \<lparr> opt_headers = [''Authorization'' \<mapsto> ''Basic abc''],
                                  opt_timeout = None, opt_data = None \<rparr>)
                          (initial_state env_unset None)))) = 1
   \<and> via (last (wire (snd (get env_unset server_not_found ''/x''
                             (Some \<lparr> opt_headers = [''Authorization'' \<mapsto> ''Basic abc''],
                                     opt_timeout = None, opt_data = None \<rparr>)
                             (initial_state env_unset None))))) = Client_instance
   \<and> w_headers (last (wire (snd (get env_unset server_not_found ''/x''
                                   (Some \<lparr> opt_headers = [''Authorization'' \<mapsto> ''Basic abc''],
                                           opt_timeout = None, opt_data = None \<rparr>)
                                   (initial_state env_unset None))))) ''Authorization''
       = Some ''Basic abc''"
  by (simp add: eval_defs eval_defs2 initial_state_unset server_not_found_def)

text \<open>
  Claim C5, amended. Every attempt that the instance of a constructed client sends
  carries \<open>Authorization: Bearer\<close> followed by the stored access token when a non-empty
  one is stored at that moment, whatever the caller's options say. When none is stored
  the client adds no such header: it is the one of the caller's options, and absent when
  they have none.
\<close>

theorem bearer_header_of_every_attempt:
  assumes "client (apiClient st) = client (fst (ApiClient_new env cur0))"
  shows "\<exists>q. wire (snd (attempt env srv config st)) = wire st @ [q]
            \<and> via q = Client_instance
            \<and> w_headers q ''Authorization'' =
                (case accessToken (apiClient st) of
                   None \<Rightarrow> headers config ''Authorization''
                 | Some t \<Rightarrow> if t \<noteq> [] then Some (''Bearer '' @ t)
                             else headers config ''Authorization'')"
proof -
  have d: "inst_headers (client (apiClient st)) ''Authorization'' = None"
    unfolding assms by (simp add: ApiClient_new_def case_prod_beta)
  then have m: "headers (mergeConfig (client (apiClient st)) config) ''Authorization''
                  = headers config ''Authorization''"
    by (simp add: mergeConfig_def map_add_def split: option.splits)
  let ?q = "to_wire (client (apiClient st))
              (fst (request_interceptor env (mergeConfig (client (apiClient st)) config) st))"
  have "w_headers ?q ''Authorization'' =
          (case accessToken (apiClient st) of
             None \<Rightarrow> headers config ''Authorization''
           | Some t \<Rightarrow> if t \<noteq> [] then Some (''Bearer '' @ t) else headers config ''Authorization'')"
    using m by (simp add: to_wire_def request_interceptor_fst split: option.splits)
  then show ?thesis using attempt_wire[of env srv config st] by (simp add: via_to_wire)
qed

theorem bearer_header_of_every_attempt_witness:
  "client (apiClient logged_in) = client (fst (ApiClient_new env_unset None))
   \<and> accessToken (apiClient logged_in) = Some ''A1''
   \<and> (\<exists>q. wire (snd (attempt env_unset server_refreshing (request_of GET ''/users/me'' None None) logged_in))
            = wire logged_in @ [q]
          \<and> via q = Client_instance \<and> w_headers q ''Authorization'' = Some ''Bearer A1'')
   \<and> client (apiClient (initial_state env_unset None)) = client (fst (ApiClient_new env_unset None))
   \<and> accessToken (apiClient (initial_state env_unset None)) = None
   \<and> (\<exists>q. wire (snd (attempt env_unset server_refreshing (request_of GET ''/users/me'' None None)
                        (initial_state env_unset None)))
            = wire (initial_state env_unset None) @ [q]
          \<and> via q = Client_instance \<and> w_headers q ''Authorization'' = None)"
proof -
  let ?cfg = "request_of GET ''/users/me'' None None"
  have c1: "client (apiClient logged_in) = client (fst (ApiClient_new env_unset None))"
    by (simp add: logged_in_def run_client initial_state_def)
  have c2: "client (apiClient (initial_state env_unset None)) = client (fst (ApiClient_new env_unset None))"
    by (simp add: initial_state_def)
  have k1: "accessToken (apiClient logged_in) = Some ''A1''" by (simp add: logged_in_eq)
  have k2: "accessToken (apiClient (initial_state env_unset None)) = None"
    by (simp add: initial_state_unset)
  have n: "headers ?cfg ''Authorization'' = None" by (simp add: request_of_def)
  from bearer_header_of_every_attempt[OF c1, of server_refreshing ?cfg] k1
  have e1: "\<exists>q. wire (snd (attempt env_unset server_refreshing ?cfg logged_in)) = wire logged_in @ [q]
          \<and> via q = Client_instance \<and> w_headers q ''Authorization'' = Some ''Bearer A1''"
    by simp
  from bearer_header_of_every_attempt[OF c2, of server_refreshing ?cfg] k2 n
  have e2: "\<exists>q. wire (snd (attempt env_unset server_refreshing ?cfg (initial_state env_unset None)))
            = wire (initial_state env_unset None) @ [q]
          \<and> via q = Client_instance \<and> w_headers q ''Authorization'' = None"
    by simp
  from c1 k1 e1 c2 k2 e2 show ?thesis by (intro conjI)
qed

subsection \<open>What a failing call throws\<close>

text \<open>
  Claim C6 says that a failing call raises an error that carries the upstream message,
  the status and the error list of the response body. When \<open>handleError\<close> sees the error,
  the response interceptor has already replaced the \<open>AxiosError\<close> by its plain object,
  which is neither an \<open>AxiosError\<close> nor an \<open>Error\<close>; so the verb throws
  \<open>{ message: 'Unknown error occurred' }\<close>. Here the answer is a 404 whose body has the
  message \<open>Not found\<close> and the errors \<open>['e1']\<close>: \<open>handleError\<close> of the \<open>AxiosError\<close> itself
  would carry them, the call carries neither.
\<close>

theorem failure_loses_upstream_details:
  "(\<exists>e. fst (attempt env_unset server_not_found (request_of GET ''/users/me'' None None) logged_in) = Inl e
        \<and> handleError (Axios_error e)
            = \<lparr> message = ''Not found'', code = Some ''ERR_BAD_REQUEST'', status = Some 404,
                errors = Some [''e1''] \<rparr>)
   \<and> fst (get env_unset server_not_found ''/users/me'' None logged_in)
     = Inl \<lparr> message = ''Unknown error occurred'', code = None, status = None, errors = None \<rparr>"
  by (simp add: eval_defs2 server_not_found_def or_default_def)

subsection \<open>Bound endpoint, fresh tenant header\<close>

text \<open>
  Claim C7. The instance of a client built by the constructor keeps its base URL and
  timeout through every sequence of calls, tenant switches included; they are those of
  the tenant that was current at construction. Each attempt it sends goes to that base
  URL, with the timeout of the call's options or else the bound one, and carries in
  \<open>X-Tenant-ID\<close> the id of the tenant that is current when the attempt is made.
\<close>

theorem endpoint_bound_tenant_header_fresh:
  assumes "client (apiClient st) = client (fst (ApiClient_new env cur0))"
  shows "client (apiClient (run env srv ops st)) = client (apiClient st)
         \<and> inst_baseURL (client (apiClient st)) = baseUrl (api (fst (getCurrentTenant env cur0)))
         \<and> inst_timeout (client (apiClient st)) = timeout (api (fst (getCurrentTenant env cur0)))
         \<and> (\<exists>q. wire (snd (attempt env srv config st)) = wire st @ [q]
                \<and> via q = Client_instance
                \<and> w_baseURL q = baseUrl (api (fst (getCurrentTenant env cur0)))
                \<and> w_timeout q = (case cfg_timeout config of
                                   Some ms \<Rightarrow> ms
                                 | None \<Rightarrow> timeout (api (fst (getCurrentTenant env cur0))))
                \<and> w_headers q ''X-Tenant-ID''
                    = Some (tenant_id (fst (getCurrentTenant env (currentTenant st)))))"
proof -
  have b: "inst_baseURL (client (apiClient st)) = baseUrl (api (fst (getCurrentTenant env cur0)))"
    "inst_timeout (client (apiClient st)) = timeout (api (fst (getCurrentTenant env cur0)))"
    unfolding assms by (simp_all add: ApiClient_new_def case_prod_beta)
  let ?q = "to_wire (client (apiClient st))
              (fst (request_interceptor env (mergeConfig (client (apiClient st)) config) st))"
  have "w_baseURL ?q = baseUrl (api (fst (getCurrentTenant env cur0)))"
    using b by (simp add: to_wire_def)
  moreover have "w_timeout ?q = (case cfg_timeout config of
                                   Some ms \<Rightarrow> ms
                                 | None \<Rightarrow> timeout (api (fst (getCurrentTenant env cur0))))"
    using b by (simp add: to_wire_def request_interceptor_fst mergeConfig_def split: option.splits)
  moreover have "w_headers ?q ''X-Tenant-ID''
                    = Some (tenant_id (fst (getCurrentTenant env (currentTenant st))))"
    by (simp add: to_wire_def request_interceptor_fst)
  ultimately show ?thesis
    using attempt_wire[of env srv config st] b run_client[of env srv ops st]
    by (simp add: via_to_wire)
qed

theorem endpoint_bound_tenant_header_fresh_witness:
  "client (apiClient (run env_unset server_not_found [LoadTenant (Some ''tenant-1'')]
                        (initial_state env_unset None)))
     = client (fst (ApiClient_new env_unset None))
   \<and> (\<exists>q. wire (snd (attempt env_unset server_not_found (request_of GET ''/x'' None None)
                        (run env_unset server_not_found [LoadTenant (Some ''tenant-1'')]
                           (initial_state env_unset None))))
            = [q]
          \<and> via q = Client_instance
          \<and> w_baseURL q = ''https://api-dev.example.com''
          \<and> w_timeout q = 30000
          \<and> w_headers q ''X-Tenant-ID'' = Some ''tenant-1'')"
proof -
  let ?st = "run env_unset server_not_found [LoadTenant (Some ''tenant-1'')] (initial_state env_unset None)"
  let ?cfg = "request_of GET ''/x'' None None"
  have c: "client (apiClient ?st) = client (fst (ApiClient_new env_unset None))"
    by (simp add: run_client initial_state_def)
  have cur: "currentTenant ?st = Some tenant_1"
    by (simp add: run_def loadTenant_def tenantConfigs_def)
  have w: "wire ?st = []" by (simp add: run_def initial_state_def)
  have b: "fst (getCurrentTenant env_unset None) = tenant_default env_unset"
    by (simp add: getCurrentTenant_def resolve_default_unset)
  have i: "tenant_id tenant_1 = ''tenant-1''" by (simp add: tenant_1_def)
  have t: "cfg_timeout ?cfg = None" by (simp add: request_of_def)
  from endpoint_bound_tenant_header_fresh[OF c, of server_not_found "[]" ?cfg]
  have "\<exists>q. wire (snd (attempt env_unset server_not_found ?cfg ?st)) = wire ?st @ [q]
          \<and> via q = Client_instance
          \<and> w_baseURL q = baseUrl (api (fst (getCurrentTenant env_unset None)))
          \<and> w_timeout q = (case cfg_timeout ?cfg of
                             Some ms \<Rightarrow> ms
                           | None \<Rightarrow> timeout (api (fst (getCurrentTenant env_unset None))))
          \<and> w_headers q ''X-Tenant-ID'' = Some (tenant_id (fst (getCurrentTenant env_unset (currentTenant ?st))))"
    by blast
  then have "\<exists>q. wire (snd (attempt env_unset server_not_found ?cfg ?st)) = [q]
          \<and> via q = Client_instance
          \<and> w_baseURL q = ''https://api-dev.example.com''
          \<and> w_timeout q = 30000
          \<and> w_headers q ''X-Tenant-ID'' = Some ''tenant-1''"
    unfolding w cur b t by (simp add: tenant_default_fields getCurrentTenant_def i)
  with c show ?thesis by (intro conjI)
qed

end
